theory Spec2Isabelle
  imports Complex_Main "HOL-Library.Sublist"
begin

section \<open>Similarity engine (\<open>getEditDistance\<close>, \<open>calculateSimilarity\<close>)\<close>

text \<open>
  A JavaScript string is a sequence of code units; the two functions only take lengths and
  compare code units at given positions, so they are modelled over lists of any element
  type. The array \<open>costs\<close> is a list of naturals. A JavaScript array write at an index
  beyond the end extends the array; \<open>getEditDistance\<close> only ever writes inside the array
  or exactly at its end (lemmas \<open>row_zero\<close> and \<open>row_bound\<close>), so the padding that
  \<open>array_set\<close> would insert for a write further out never occurs.
\<close>

definition array_set :: "nat list \<Rightarrow> nat \<Rightarrow> nat \<Rightarrow> nat list" where
  "array_set xs j v =
     (if j < length xs then xs[j := v] else xs @ replicate (j - length xs) 0 @ [v])"

text \<open>
  The body of the inner loop \<open>for (let j = 0; j <= s2.length; j++)\<close>; the loop state is
  the array \<open>costs\<close> and the variable \<open>lastValue\<close>.
\<close>

definition inner_step :: "'a list \<Rightarrow> 'a list \<Rightarrow> nat \<Rightarrow> nat list \<times> nat \<Rightarrow> nat \<Rightarrow> nat list \<times> nat" where
  "inner_step s1 s2 i st j =
     (case st of (costs, lastValue) \<Rightarrow>
        if i = 0 then (array_set costs j j, lastValue)
        else if j > 0 then
          (let newValue = costs ! (j - 1);
               newValue' = (if s1 ! (i - 1) \<noteq> s2 ! (j - 1)
                            then min (min newValue lastValue) (costs ! j) + 1
                            else newValue)
           in (array_set costs (j - 1) lastValue, newValue'))
        else (costs, lastValue))"

text \<open>
  The body of the outer loop \<open>for (let i = 0; i <= s1.length; i++)\<close>: \<open>lastValue\<close>
  starts at \<open>i\<close>, the inner loop runs, and for \<open>i > 0\<close> the last cell is written.
\<close>

definition row :: "'a list \<Rightarrow> 'a list \<Rightarrow> nat list \<Rightarrow> nat \<Rightarrow> nat list" where
  "row s1 s2 costs i =
     (case foldl (inner_step s1 s2 i) (costs, i) [0..<length s2 + 1] of
        (costs', lastValue) \<Rightarrow>
          if i > 0 then array_set costs' (length s2) lastValue else costs')"

definition getEditDistance :: "'a list \<Rightarrow> 'a list \<Rightarrow> nat" where
  "getEditDistance s1 s2 = foldl (row s1 s2) [] [0..<length s1 + 1] ! length s2"

text \<open>
  \<open>calculateSimilarity\<close> divides two JavaScript numbers that hold integers; the quotient
  is modelled as a real number.
\<close>

definition calculateSimilarity :: "'a list \<Rightarrow> 'a list \<Rightarrow> real" where
  "calculateSimilarity str1 str2 =
     (let longer = (if length str1 > length str2 then str1 else str2);
          shorter = (if length str1 > length str2 then str2 else str1)
      in if length longer = 0 then 1
         else (real (length longer) - real (getEditDistance longer shorter))
                / real (length longer))"


section \<open>Strings\<close>

text \<open>
  Strings of the application are modelled as lists of 8-bit characters, read as the code
  units 0 to 255 of a JavaScript string. On this range \<open>String.prototype.toLowerCase\<close>
  maps A to Z and the capital letters U+00C0 to U+00DE (except the multiplication sign
  U+00D7) to the code unit 32 higher and leaves every other code unit alone, and
  \<open>String.prototype.trim\<close> strips tab, line feed, vertical tab, form feed, carriage
  return, space and no-break space from both ends.
\<close>

definition lower_char :: "char \<Rightarrow> char" where
  "lower_char c =
     (let n = (of_char c :: nat)
      in if (65 \<le> n \<and> n \<le> 90) \<or> (192 \<le> n \<and> n \<le> 222 \<and> n \<noteq> 215)
         then char_of (n + 32) else c)"

definition toLowerCase :: "string \<Rightarrow> string" where
  "toLowerCase s = map lower_char s"

definition is_space :: "char \<Rightarrow> bool" where
  "is_space c = ((of_char c :: nat) \<in> {9, 10, 11, 12, 13, 32, 160})"

definition trim :: "string \<Rightarrow> string" where
  "trim s = rev (dropWhile is_space (rev (dropWhile is_space s)))"

text \<open>ASCII whitespace, at which a class attribute is split into its tokens and which
  \<open>atob\<close> removes: tab, line feed, form feed, carriage return and space.\<close>

definition ascii_whitespace :: "char \<Rightarrow> bool" where
  "ascii_whitespace c = ((of_char c :: nat) \<in> {9, 10, 12, 13, 32})"

fun split_when :: "('a \<Rightarrow> bool) \<Rightarrow> 'a list \<Rightarrow> 'a list list" where
  "split_when P [] = [[]]"
| "split_when P (x # xs) =
     (if P x then [] # split_when P xs
      else (case split_when P xs of
              [] \<Rightarrow> [[x]]
            | y # ys \<Rightarrow> (x # y) # ys))"

definition class_tokens :: "string \<Rightarrow> string list" where
  "class_tokens v = filter (\<lambda>t. t \<noteq> []) (split_when ascii_whitespace v)"

text \<open>\<open>str.includes(t)\<close>: \<open>t\<close> occurs in \<open>str\<close> as a contiguous substring.\<close>

fun includes' :: "'a list \<Rightarrow> 'a list \<Rightarrow> bool" where
  "includes' [] t = (t = [])"
| "includes' (x # xs) t = (prefix t (x # xs) \<or> includes' xs t)"

text \<open>\<open>str.startsWith(p)\<close>.\<close>

definition startsWith :: "'a list \<Rightarrow> 'a list \<Rightarrow> bool" where
  "startsWith str p = prefix p str"

text \<open>\<open>Array.prototype.findIndex\<close>, with \<open>None\<close> for the result \<open>-1\<close>.\<close>

fun findIndex :: "('a \<Rightarrow> bool) \<Rightarrow> 'a list \<Rightarrow> nat option" where
  "findIndex P [] = None"
| "findIndex P (x # xs) = (if P x then Some 0 else map_option Suc (findIndex P xs))"


section \<open>Global state and data\<close>

text \<open>
  A prompt object. The field \<open>rating\<close> is absent (\<open>undefined\<close>) on the sample data, so it
  is optional; \<open>inputImage\<close> is \<open>null\<close> or an image reference.
\<close>

record prompt =
  id' :: string
  title :: string
  category :: string
  tags :: "string list"
  text' :: string
  notes' :: string
  rating :: "int option"
  resultImages :: "string list"
  inputImage :: "string option"
  createdAt :: string
  updatedAt :: string

text \<open>
  A card of the prompt grid, as far as the search reads it: \<open>dataset.id\<close>, the text
  content of the element of class \<open>prompt-title-text\<close>, the category of the prompt
  (which \<open>createPromptCard\<close> writes into the class attribute of the category span, after
  the class \<open>prompt-category\<close>, and whose display name is the text of that span), the
  text contents of the tag spans, and whether \<open>style.display\<close> is other than \<open>none\<close>.
\<close>

record card =
  card_id :: string
  prompt_title_text :: string
  card_category :: string
  tag_texts :: "string list"
  shown :: bool

text \<open>Where the element \<open>#emptyState\<close> is: in the page outside the grid, inside
  \<open>#promptGrid\<close>, or not in the document.\<close>

datatype element_place = OutsideGrid | InsideGrid | Absent

text \<open>An item of the category list: \<open>dataset.category\<close>, \<open>dataset.name\<close> and the items
  of its nested \<open>category-sublist\<close>.\<close>

datatype li = Li (li_category: string) (li_name: string) (li_sublist: "li list")

text \<open>The callbacks handed to \<open>showConfirmModal\<close>, with the values they close over.\<close>

datatype confirm_action =
    DeletePromptAction string
  | DeleteCategoryAction string "nat list"

text \<open>
  The global variables of the script and the parts of the document that the modelled
  functions read or write: the cards of \<open>#promptGrid\<close>, the place of \<open>#emptyState\<close>,
  the items of \<open>#categoryList\<close> and the options (value and text) of the select
  \<open>#promptCategory\<close>. The undo and redo
  stacks hold \<open>JSON.stringify(prompts)\<close>; since \<open>JSON.parse\<close> gives back an equal array
  for prompts made of strings, integers, arrays and \<open>null\<close>, a stack entry is modelled as
  the prompt list itself. \<open>localStorage\<close> is only written, never read back, by the modelled
  functions and is left out.
\<close>

record state =
  prompts :: "prompt list"
  favorites :: "string list"
  currentCategory :: string
  editingPromptId :: "string option"
  pendingConfirmAction :: "confirm_action option"
  undoStack :: "prompt list list"
  redoStack :: "prompt list list"
  searchCache :: "(string \<times> string list) list"
  promptGrid :: "card list"
  emptyState :: element_place
  categoryList :: "li list"
  promptCategory :: "(string \<times> string) list"

datatype js_error = TypeError | InvalidCharacterError | SyntaxError | NotFoundError

text \<open>
  The state when the script has loaded with an empty \<open>localStorage\<close>; the category
  items, the select options and the place of \<open>#emptyState\<close> come from the page.
\<close>

definition initial_state :: "li list \<Rightarrow> (string \<times> string) list \<Rightarrow> element_place \<Rightarrow> state" where
  "initial_state items opts place =
     \<lparr>prompts = [], favorites = [], currentCategory = ''favorites'',
      editingPromptId = None, pendingConfirmAction = None,
      undoStack = [], redoStack = [], searchCache = [],
      promptGrid = [], emptyState = place, categoryList = items, promptCategory = opts\<rparr>"



section \<open>Rendering the grid (\<open>createPromptCard\<close>, \<open>loadPrompts\<close>)\<close>

text \<open>
  \<open>createPromptCard\<close> writes the title (escaped) into \<open>prompt-title-text\<close>, each
  trimmed tag into a \<open>span\<close> of class \<open>tag\<close>, and the category into the class
  attribute of a span whose text is the category's display name; it writes no element of
  class \<open>prompt-text\<close> of its own. Tags, category and image references are interpolated
  into the markup unescaped; the model covers prompts whose values hold no markup
  characters (angle brackets, ampersand, double quote).
\<close>

definition createPromptCard :: "prompt \<Rightarrow> card" where
  "createPromptCard p =
     \<lparr>card_id = id' p, prompt_title_text = title p, card_category = category p,
      tag_texts = map trim (tags p), shown = True\<rparr>"

text \<open>
  \<open>getCategoryDisplayName\<close>. (The table is a plain object; for a category that is a
  property name of \<open>Object.prototype\<close> the script reads the inherited property instead.
  The display name is only read below for a category with the class token
  \<open>prompt-text\<close> or \<open>tag\<close>, and no such category is one of those names.)
\<close>

definition getCategoryDisplayName :: "string \<Rightarrow> string" where
  "getCategoryDisplayName c =
     (case map_of [(''art'', ''Art & Images''), (''writing'', ''Writing''),
                   (''code'', ''Code & Technical''), (''analysis'', ''Analysis''),
                   (''creative'', ''Creative''), (''other'', ''Other'')] c of
        Some n \<Rightarrow> n
      | None \<Rightarrow> c)"

text \<open>
  What the selectors of the search find in a card. \<open>card.querySelector('.prompt-text')\<close>
  finds the category span when the category holds the class token \<open>prompt-text\<close>, and
  nothing otherwise; \<open>card.querySelectorAll('.tag')\<close> finds the category span first when
  the category holds the token \<open>tag\<close>, then the tag spans. With the token
  \<open>prompt-card\<close> the category span is itself an element of
  \<open>document.querySelectorAll('.prompt-card')\<close>, right after its card.
\<close>

definition card_prompt_text :: "card \<Rightarrow> string option" where
  "card_prompt_text c =
     (if ''prompt-text'' \<in> set (class_tokens (card_category c))
      then Some (getCategoryDisplayName (card_category c)) else None)"

definition card_tags :: "card \<Rightarrow> string list" where
  "card_tags c =
     (if ''tag'' \<in> set (class_tokens (card_category c))
      then [getCategoryDisplayName (card_category c)] else []) @ tag_texts c"

definition span_is_prompt_card :: "card \<Rightarrow> bool" where
  "span_is_prompt_card c = (''prompt-card'' \<in> set (class_tokens (card_category c)))"

text \<open>
  \<open>updateEmptyState\<close>: nothing without the element; otherwise, when no prompt has the
  current category (every prompt counts in the view \<open>all\<close>), the element is shown and
  moved into the grid unless it is there already.
\<close>

definition updateEmptyState :: "state \<Rightarrow> state" where
  "updateEmptyState s =
     (if emptyState s = Absent then s
      else
        let filteredPrompts =
              (if currentCategory s \<noteq> ''all''
               then filter (\<lambda>p. category p = currentCategory s) (prompts s)
               else prompts s)
        in if filteredPrompts = [] then s\<lparr>emptyState := InsideGrid\<rparr> else s)"

text \<open>
  \<open>loadPrompts\<close>: \<open>promptGrid.innerHTML = ''\<close> removes the cards and, when it is inside
  the grid, the element \<open>#emptyState\<close>, which is then gone from the document. With no
  prompt to show the function calls \<open>updateEmptyState\<close> and returns; otherwise it draws
  the cards.
\<close>

definition loadPrompts :: "state \<Rightarrow> state" where
  "loadPrompts s =
     (let s1 = s\<lparr>promptGrid := [],
                  emptyState := (if emptyState s = InsideGrid then Absent else emptyState s)\<rparr>;
          filteredPrompts =
            (if currentCategory s = ''favorites''
             then filter (\<lambda>p. id' p \<in> set (favorites s)) (prompts s)
             else if currentCategory s \<noteq> ''all''
             then filter (\<lambda>p. category p = currentCategory s) (prompts s)
             else prompts s)
      in if filteredPrompts = [] then updateEmptyState s1
         else s1\<lparr>promptGrid := map createPromptCard filteredPrompts\<rparr>)"


text \<open>\<open>addSampleData\<close>; the two generated ids and the four clock readings are parameters.\<close>

definition addSampleData :: "string \<Rightarrow> string \<Rightarrow> string \<Rightarrow> string \<Rightarrow> string \<Rightarrow> string \<Rightarrow> state \<Rightarrow> state" where
  "addSampleData id1 id2 t1 t2 t3 t4 s =
     loadPrompts
       (s\<lparr>prompts :=
          [\<lparr>id' = id1, title = ''Fantasy Landscape Painting'', category = ''art'',
            tags = [''landscape'', ''fantasy'', ''painting'', ''detailed''],
            text' = ''A breathtaking fantasy landscape with towering mountains, a mystical forest, and a crystal-clear river flowing through the valley. Digital painting, highly detailed, epic scale, cinematic lighting, by Albert Bierstadt and Thomas Kinkade, 8K resolution'',
            notes' = ''Works best with DALL-E 3 or Midjourney v5.2'',
            rating = None, resultImages = [], inputImage = None,
            createdAt = t1, updatedAt = t2\<rparr>,
           \<lparr>id' = id2, title = ''Python Data Analysis Script'', category = ''code'',
            tags = [''python'', ''data'', ''analysis'', ''pandas''],
            text' = ''Create a Python script using pandas to analyze a CSV dataset. Include data cleaning, visualization with matplotlib, and statistical summary. Add comments explaining each step.'',
            notes' = ''Adjust column names based on your dataset'',
            rating = None, resultImages = [], inputImage = None,
            createdAt = t3, updatedAt = t4\<rparr>]\<rparr>)"


section \<open>Prompt management (\<open>addNewPrompt\<close>, \<open>editPrompt\<close>, \<open>savePrompt\<close>, \<open>deletePrompt\<close>,
  \<open>toggleFavorite\<close>)\<close>

definition saveState :: "state \<Rightarrow> state" where
  "saveState s =
     (let pushed = undoStack s @ [prompts s]
      in s\<lparr>undoStack := (if length pushed > 20 then tl pushed else pushed),
           redoStack := []\<rparr>)"

definition addNewPrompt :: "state \<Rightarrow> state" where
  "addNewPrompt s = s\<lparr>editingPromptId := None\<rparr>"

definition editPrompt :: "string \<Rightarrow> state \<Rightarrow> state" where
  "editPrompt promptId s =
     (case find (\<lambda>p. id' p = promptId) (prompts s) of
        None \<Rightarrow> s
      | Some _ \<Rightarrow> s\<lparr>editingPromptId := Some promptId\<rparr>)"

text \<open>
  The values \<open>savePrompt\<close> reads off the form, after its own conversions: title, text and
  notes trimmed, the tag field split at commas with each piece trimmed and empty pieces
  dropped, the rating read by \<open>parseInt\<close> with 0 for no number, and the images collected
  from the upload boxes.
\<close>

record form_values =
  form_title :: string
  form_category :: string
  form_tags :: "string list"
  form_text :: string
  form_notes :: string
  form_rating :: int
  form_resultImages :: "string list"
  form_inputImage :: "string option"

text \<open>
  \<open>savePrompt\<close>. The result of \<open>generateId()\<close> and the two clock readings
  \<open>new Date().toISOString()\<close> are parameters (the update branch reads the clock once
  and uses \<open>t1\<close>). \<open>if (editingPromptId)\<close> holds for a non-empty string.
\<close>

definition savePrompt :: "form_values \<Rightarrow> string \<Rightarrow> string \<Rightarrow> string \<Rightarrow> state \<Rightarrow> state" where
  "savePrompt f newId t1 t2 s =
     (if form_title f = [] \<or> form_category f = [] \<or> form_text f = [] then s
      else
        let s1 = saveState s;
            s2 =
              (case editingPromptId s1 of
                 Some editing \<Rightarrow>
                   (if editing \<noteq> [] then
                      (case findIndex (\<lambda>p. id' p = editing) (prompts s1) of
                         Some index \<Rightarrow>
                           s1\<lparr>prompts := (prompts s1)
                                [index := (prompts s1 ! index)
                                   \<lparr>title := form_title f, category := form_category f,
                                    tags := form_tags f, text' := form_text f,
                                    notes' := form_notes f, rating := Some (form_rating f),
                                    resultImages := form_resultImages f,
                                    inputImage := form_inputImage f,
                                    updatedAt := t1\<rparr>]\<rparr>
                       | None \<Rightarrow> s1)
                    else
                      s1\<lparr>prompts :=
                           \<lparr>id' = newId, title = form_title f, category = form_category f,
                            tags = form_tags f, text' = form_text f, notes' = form_notes f,
                            rating = Some (form_rating f),
                            resultImages = form_resultImages f,
                            inputImage = form_inputImage f,
                            createdAt = t1, updatedAt = t2\<rparr> # prompts s1\<rparr>)
               | None \<Rightarrow>
                   s1\<lparr>prompts :=
                        \<lparr>id' = newId, title = form_title f, category = form_category f,
                         tags = form_tags f, text' = form_text f, notes' = form_notes f,
                         rating = Some (form_rating f),
                         resultImages = form_resultImages f,
                         inputImage = form_inputImage f,
                         createdAt = t1, updatedAt = t2\<rparr> # prompts s1\<rparr>)
        in loadPrompts (s2\<lparr>searchCache := []\<rparr>))"

text \<open>
  \<open>deletePrompt\<close> looks the prompt up and, when it exists, hands the deletion to the
  confirm dialog. \<open>deletePrompt_confirmed\<close> is that callback: it removes the prompt at
  its index, removes the first occurrence of the id from the favourites, clears the search
  cache and redraws the grid. It does not call \<open>saveState\<close>.
\<close>

definition deletePrompt_confirmed :: "string \<Rightarrow> state \<Rightarrow> state" where
  "deletePrompt_confirmed promptId s =
     (case findIndex (\<lambda>p. id' p = promptId) (prompts s) of
        None \<Rightarrow> s
      | Some index \<Rightarrow>
          loadPrompts
            (s\<lparr>prompts := take index (prompts s) @ drop (Suc index) (prompts s),
               favorites := remove1 promptId (favorites s),
               searchCache := []\<rparr>))"

definition deletePrompt :: "string \<Rightarrow> state \<Rightarrow> state" where
  "deletePrompt promptId s =
     (case find (\<lambda>p. id' p = promptId) (prompts s) of
        None \<Rightarrow> s
      | Some _ \<Rightarrow> s\<lparr>pendingConfirmAction := Some (DeletePromptAction promptId)\<rparr>)"

text \<open>
  \<open>toggleFavorite\<close>: \<open>favorites.indexOf\<close> finds the first occurrence, \<open>splice\<close> removes
  it, \<open>push\<close> appends. The grid is redrawn only in the favourites view.
\<close>

definition toggleFavorite :: "string \<Rightarrow> state \<Rightarrow> state" where
  "toggleFavorite promptId s =
     (let s1 = (if promptId \<notin> set (favorites s)
                then s\<lparr>favorites := favorites s @ [promptId]\<rparr>
                else s\<lparr>favorites := remove1 promptId (favorites s)\<rparr>)
      in if currentCategory s1 = ''favorites'' then loadPrompts s1 else s1)"


section \<open>Undo and redo\<close>

definition undo :: "state \<Rightarrow> state" where
  "undo s =
     (if length (undoStack s) > 0
      then loadPrompts
             (s\<lparr>redoStack := redoStack s @ [prompts s],
                prompts := last (undoStack s),
                undoStack := butlast (undoStack s)\<rparr>)
      else s)"

definition redo :: "state \<Rightarrow> state" where
  "redo s =
     (if length (redoStack s) > 0
      then loadPrompts
             (s\<lparr>undoStack := undoStack s @ [prompts s],
                prompts := last (redoStack s),
                redoStack := butlast (redoStack s)\<rparr>)
      else s)"


section \<open>Duplicate detection (\<open>findDuplicatePrompts\<close>)\<close>

text \<open>
  The two nested loops visit the index pairs \<open>i < j\<close> in order. The comparison with the
  constant \<open>0.7\<close> and the product with 100 are taken over the reals; \<open>Math.round\<close>
  rounds half up, as \<open>round\<close> does.
\<close>

record duplicate =
  prompt1 :: prompt
  prompt2 :: prompt
  similarity :: int

definition findDuplicatePrompts :: "prompt list \<Rightarrow> duplicate list" where
  "findDuplicatePrompts ps =
     concat (map (\<lambda>i.
       concat (map (\<lambda>j.
         (let sim = calculateSimilarity (text' (ps ! i)) (text' (ps ! j))
          in if sim > 7 / 10
             then [\<lparr>prompt1 = ps ! i, prompt2 = ps ! j, similarity = round (sim * 100)\<rparr>]
             else []))
         [i + 1..<length ps]))
       [0..<length ps])"


section \<open>Search (input handler of \<open>#searchInput\<close>, \<open>applySearchResults\<close>)\<close>

text \<open>
  One card of the handler's \<open>forEach\<close>: the title is read, then \<open>.textContent\<close> of
  \<open>card.querySelector('.prompt-text')\<close>, which raises a \<open>TypeError\<close> when the card has no
  such element, then the tags.
\<close>

definition card_matches :: "string \<Rightarrow> card \<Rightarrow> js_error + bool" where
  "card_matches searchTerm c =
     (let title_lc = toLowerCase (prompt_title_text c)
      in case card_prompt_text c of
           None \<Rightarrow> Inl TypeError
         | Some t \<Rightarrow>
             (let text_lc = toLowerCase t;
                  tags_lc = map toLowerCase (card_tags c)
              in Inr (includes' title_lc searchTerm \<or> includes' text_lc searchTerm
                      \<or> list_ex (\<lambda>tag. includes' tag searchTerm) tags_lc)))"

text \<open>
  The \<open>forEach\<close> over \<open>document.querySelectorAll('.prompt-card')\<close>. A category span that
  is itself of class \<open>prompt-card\<close> comes right after its card and has no element of
  class \<open>prompt-title-text\<close> inside, so reading its title raises a \<open>TypeError\<close>.
\<close>

fun search_cards :: "string \<Rightarrow> card list \<Rightarrow> string list \<Rightarrow> js_error + string list" where
  "search_cards searchTerm [] results = Inr results"
| "search_cards searchTerm (c # cs) results =
     (case card_matches searchTerm c of
        Inl e \<Rightarrow> Inl e
      | Inr matches \<Rightarrow>
          if span_is_prompt_card c then Inl TypeError
          else search_cards searchTerm cs
                 (if matches then results @ [card_id c] else results))"

text \<open>
  The object \<open>searchCache\<close> is modelled by its own properties in insertion order. The
  read \<open>searchCache[key]\<close> gives the array stored under the key, or, for a key that is
  a property name of \<open>Object.prototype\<close>, the inherited value, which is no array; otherwise
  it is undefined.
\<close>

datatype cache_value = Ids "string list" | NotAnArray

definition object_prototype_names :: "string list" where
  "object_prototype_names =
     [''constructor'', ''__defineGetter__'', ''__defineSetter__'', ''hasOwnProperty'',
      ''__lookupGetter__'', ''__lookupSetter__'', ''isPrototypeOf'',
      ''propertyIsEnumerable'', ''toString'', ''valueOf'', ''__proto__'',
      ''toLocaleString'']"

definition cache_lookup :: "(string \<times> string list) list \<Rightarrow> string \<Rightarrow> cache_value option" where
  "cache_lookup cache key =
     (case map_of cache key of
        Some ids \<Rightarrow> Some (Ids ids)
      | None \<Rightarrow> (if key \<in> set object_prototype_names then Some NotAnArray else None))"

text \<open>
  A function of the script that changes the state and may then raise an exception that
  nothing catches returns the state it leaves behind together with the exception, if any.

  The second half of \<open>applySearchResults\<close>: with no visible card and a non-empty term the
  element \<open>#emptyState\<close> is rewritten, with no visible card and an empty term
  \<open>updateEmptyState\<close> is called, and with a visible card the element is hidden; the first
  and the last dereference the element without a check and raise a \<open>TypeError\<close> when it
  is not in the document.
\<close>

definition show_search_emptyState :: "string \<Rightarrow> state \<Rightarrow> state \<times> js_error option" where
  "show_search_emptyState searchTerm s =
     (let visibleCards = filter shown (promptGrid s)
      in if visibleCards = [] \<and> searchTerm \<noteq> []
         then (if emptyState s = Absent then (s, Some TypeError) else (s, None))
         else if visibleCards = [] then (updateEmptyState s, None)
         else (if emptyState s = Absent then (s, Some TypeError) else (s, None)))"

text \<open>
  \<open>applySearchResults\<close>: every card is shown or hidden by \<open>matchingIds.includes\<close>
  (a category span of class \<open>prompt-card\<close> has no id and is hidden); for a value that is
  no array the call of \<open>includes\<close> raises a \<open>TypeError\<close> at the first card.
\<close>

definition applySearchResults :: "cache_value \<Rightarrow> string \<Rightarrow> state \<Rightarrow> state \<times> js_error option" where
  "applySearchResults matchingIds searchTerm s =
     (case matchingIds of
        NotAnArray \<Rightarrow>
          if promptGrid s \<noteq> [] then (s, Some TypeError)
          else show_search_emptyState searchTerm s
      | Ids ids \<Rightarrow>
          show_search_emptyState searchTerm
            (s\<lparr>promptGrid := map (\<lambda>c. c\<lparr>shown := card_id c \<in> set ids\<rparr>) (promptGrid s)\<rparr>))"

text \<open>
  The debounced body of the input handler, for the value of the search box. An exception
  while the cards are scanned leaves the state as it was; the result is written into the
  cache before \<open>applySearchResults\<close> runs. The suggestion list drawn first by
  \<open>generateSearchSuggestions\<close> is not part of the state.
\<close>

definition searchInput_handler :: "string \<Rightarrow> state \<Rightarrow> state \<times> js_error option" where
  "searchInput_handler v s =
     (let searchTerm = trim (toLowerCase v)
      in case cache_lookup (searchCache s) searchTerm of
           Some cached \<Rightarrow> applySearchResults cached searchTerm s
         | None \<Rightarrow>
             (case search_cards searchTerm (promptGrid s) [] of
                Inl e \<Rightarrow> (s, Some e)
              | Inr results \<Rightarrow>
                  applySearchResults (Ids results) searchTerm
                    (s\<lparr>searchCache := searchCache s @ [(searchTerm, results)]\<rparr>)))"


section \<open>Category items (\<open>makeCategoryItem\<close>, \<open>updateDescendantKeys\<close>,
  \<open>deleteCategoryAndDescendants\<close>)\<close>

text \<open>The keys for which \<open>makeCategoryItem\<close> hides the delete button. The edit button
  is appended for every item.\<close>

definition protect :: "string list" where
  "protect = [''favorites'', ''other'']"

text \<open>\<open>document.querySelectorAll('#categoryList li')\<close>: every item, in document order.\<close>

fun lis_of :: "li \<Rightarrow> li list" where
  "lis_of (Li k n cs) = Li k n cs # concat (map lis_of cs)"

definition querySelectorAll_li :: "li list \<Rightarrow> li list" where
  "querySelectorAll_li items = concat (map lis_of items)"

text \<open>The keys of all items, in document order.\<close>

definition li_keys :: "li list \<Rightarrow> string list" where
  "li_keys items = map li_category (querySelectorAll_li items)"

text \<open>
  An item is addressed by its position: the index in the top-level list, then the index in
  each nested sublist. \<open>li_at\<close> reads the item at a position, \<open>remove_li\<close> is
  \<open>Element.remove()\<close> on it, which takes the nested items with it.
\<close>

fun li_at :: "nat list \<Rightarrow> li list \<Rightarrow> li option" where
  "li_at [] items = None"
| "li_at (i # pos) items =
     (if i < length items
      then (if pos = [] then Some (items ! i) else li_at pos (li_sublist (items ! i)))
      else None)"

fun remove_li :: "nat list \<Rightarrow> li list \<Rightarrow> li list" where
  "remove_li [] items = items"
| "remove_li (i # pos) items =
     (if i < length items
      then (if pos = [] then take i items @ drop (Suc i) items
            else items[i := Li (li_category (items ! i)) (li_name (items ! i))
                              (remove_li pos (li_sublist (items ! i)))])
      else items)"

text \<open>
  \<open>document.querySelector('#categoryList li[data-category="oldKey"]')\<close> followed by the
  update of that item: the first item in document order whose key is \<open>oldKey\<close> gets the
  new key and name; \<open>None\<close> when no item matches. The selectors are built by string
  interpolation; the model covers keys that stand for themselves inside the quoted
  attribute value (no double quote, backslash or line break), for which the selector
  matches exactly the items, or options, whose value is the key.
\<close>

fun set_first_li :: "string \<Rightarrow> string \<Rightarrow> string \<Rightarrow> li list \<Rightarrow> li list option" where
  "set_first_li oldKey newKey newDisplay [] = None"
| "set_first_li oldKey newKey newDisplay (Li k n cs # rest) =
     (if k = oldKey then Some (Li newKey newDisplay cs # rest)
      else case set_first_li oldKey newKey newDisplay cs of
             Some cs' \<Rightarrow> Some (Li k n cs' # rest)
           | None \<Rightarrow> map_option ((#) (Li k n cs)) (set_first_li oldKey newKey newDisplay rest))"

text \<open>\<open>select.querySelector('option[value="key"]')\<close> followed by the update of that
  option's value and text.\<close>

fun set_first_option :: "string \<Rightarrow> string \<times> string \<Rightarrow> (string \<times> string) list \<Rightarrow> (string \<times> string) list" where
  "set_first_option key new [] = []"
| "set_first_option key new (opt # opts) =
     (if fst opt = key then new # opts else opt # set_first_option key new opts)"

text \<open>The body of \<open>allLis.forEach\<close>, split into what it does to the item's own key and
  what it does to the select options.\<close>

fun rekey_li :: "string \<Rightarrow> string \<Rightarrow> li \<Rightarrow> li" where
  "rekey_li oldKey newKey (Li k n cs) =
     Li (if k \<noteq> [] \<and> k \<noteq> oldKey \<and> startsWith k (oldKey @ ''/'')
         then newKey @ ''/'' @ drop (length oldKey + 1) k else k)
        n (map (rekey_li oldKey newKey) cs)"

definition rekey_option :: "string \<Rightarrow> string \<Rightarrow> string \<Rightarrow> (string \<times> string) list \<Rightarrow> li \<Rightarrow> (string \<times> string) list" where
  "rekey_option oldKey newKey newDisplay opts item =
     (let key = li_category item
      in if key \<noteq> [] \<and> key \<noteq> oldKey \<and> startsWith key (oldKey @ ''/'')
         then (let rest = drop (length oldKey + 1) key;
                   childDisplay = (if li_name item \<noteq> [] then li_name item else rest)
               in set_first_option key
                    (newKey @ ''/'' @ rest, newDisplay @ '' / '' @ childDisplay) opts)
         else opts)"

definition updateDescendantKeys :: "string \<Rightarrow> string \<Rightarrow> string \<Rightarrow> state \<Rightarrow> state" where
  "updateDescendantKeys oldKey newKey newDisplay s =
     (let items1 = (case set_first_li oldKey newKey newDisplay (categoryList s) of
                      Some items \<Rightarrow> items | None \<Rightarrow> categoryList s);
          allLis = querySelectorAll_li items1;
          opts2 = foldl (rekey_option oldKey newKey newDisplay) (promptCategory s) allLis;
          items2 = map (rekey_li oldKey newKey) items1;
          opts3 = set_first_option oldKey (newKey, newDisplay) opts2
      in s\<lparr>categoryList := items2,
           promptCategory := opts3,
           prompts := map (\<lambda>p.
             if category p = oldKey then p\<lparr>category := newKey\<rparr>
             else if category p \<noteq> [] \<and> startsWith (category p) (oldKey @ ''/'')
             then p\<lparr>category := newKey @ drop (length oldKey) (category p)\<rparr>
             else p) (prompts s)\<rparr>)"

text \<open>\<open>activateCategoryItem\<close>: a click on an item's name selects its key as the current
  category, redraws the grid and updates the empty state.\<close>

definition activateCategoryItem :: "nat list \<Rightarrow> state \<Rightarrow> state" where
  "activateCategoryItem pos s =
     (case li_at pos (categoryList s) of
        None \<Rightarrow> s
      | Some item \<Rightarrow>
          updateEmptyState (loadPrompts (s\<lparr>currentCategory := li_category item\<rparr>)))"




text \<open>
  The click handler of an item's edit button: the item is given by its position, the
  answer of \<open>window.prompt\<close> is \<open>None\<close> for a cancelled dialog. There is no check
  against \<open>protect\<close>.
\<close>

definition editBtn_click :: "nat list \<Rightarrow> string option \<Rightarrow> state \<Rightarrow> state" where
  "editBtn_click pos answer s =
     (case li_at pos (categoryList s) of
        None \<Rightarrow> s
      | Some item \<Rightarrow>
          (let oldKey = li_category item
           in case answer of
                None \<Rightarrow> s
              | Some newDisplay \<Rightarrow>
                  if newDisplay = [] then s
                  else
                    let newKey = toLowerCase (trim newDisplay)
                    in if newKey = oldKey then s
                       else if list_ex (\<lambda>other. li_category other = newKey)
                                 (querySelectorAll_li (categoryList s))
                       then s
                       else loadPrompts (updateDescendantKeys oldKey newKey (trim newDisplay) s)))"

text \<open>The fallback of \<open>deleteCategoryAndDescendants\<close> for a missing element: every item
  matching \<open>li[data-category^="key"]\<close> is removed (an empty key matches nothing).\<close>

fun remove_prefixed :: "string \<Rightarrow> li list \<Rightarrow> li list" where
  "remove_prefixed key [] = []"
| "remove_prefixed key (Li k n cs # rest) =
     (if key \<noteq> [] \<and> startsWith k key then remove_prefixed key rest
      else Li k n (remove_prefixed key cs) # remove_prefixed key rest)"

definition deleteCategoryAndDescendants :: "string \<Rightarrow> nat list option \<Rightarrow> state \<Rightarrow> state" where
  "deleteCategoryAndDescendants keyToDelete liElement s =
     s\<lparr>prompts := map (\<lambda>p.
          if category p = keyToDelete
             \<or> (category p \<noteq> [] \<and> startsWith (category p) (keyToDelete @ ''/''))
          then p\<lparr>category := ''other''\<rparr> else p) (prompts s),
       promptCategory := filter (\<lambda>opt.
          \<not> (fst opt = keyToDelete
              \<or> (fst opt \<noteq> [] \<and> startsWith (fst opt) (keyToDelete @ ''/''))))
          (promptCategory s),
       categoryList := (case liElement of
                          Some pos \<Rightarrow> remove_li pos (categoryList s)
                        | None \<Rightarrow> remove_prefixed keyToDelete (categoryList s))\<rparr>"


definition deleteCategory_confirmed :: "string \<Rightarrow> nat list \<Rightarrow> state \<Rightarrow> state" where
  "deleteCategory_confirmed keyToDelete pos s =
     loadPrompts (deleteCategoryAndDescendants keyToDelete (Some pos) s)"

text \<open>The click handler of \<open>#confirmOk\<close>: runs the pending action and forgets it.\<close>

definition confirmOk :: "state \<Rightarrow> state" where
  "confirmOk s =
     (case pendingConfirmAction s of
        None \<Rightarrow> s
      | Some (DeletePromptAction promptId) \<Rightarrow>
          (deletePrompt_confirmed promptId s)\<lparr>pendingConfirmAction := None\<rparr>
      | Some (DeleteCategoryAction keyToDelete pos) \<Rightarrow>
          (deleteCategory_confirmed keyToDelete pos s)\<lparr>pendingConfirmAction := None\<rparr>)"


text \<open>
  A key stands for itself inside a double-quoted attribute value of a selector when it
  holds no NUL, line feed, form feed, carriage return, double quote or backslash.
\<close>

definition selector_safe :: "string \<Rightarrow> bool" where
  "selector_safe k = list_all (\<lambda>c. (of_char c :: nat) \<notin> {0, 10, 12, 13, 34, 92}) k"


section \<open>A library state for the scenarios\<close>

text \<open>
  A sidebar with the items favorites, art (with the nested item art/portrait), code and
  other, and five records copied from the sample data: two in art, one in art/portrait,
  one in code and one in other, shown in the view of all records.
\<close>

definition scenario_items :: "li list" where
  "scenario_items =
     [Li ''favorites'' ''Favorites'' [],
      Li ''art'' ''Art & Images'' [Li ''art/portrait'' ''Portrait'' []],
      Li ''code'' ''Code & Technical'' [],
      Li ''other'' ''Other'' []]"

definition scenario_options :: "(string \<times> string) list" where
  "scenario_options =
     [(''art'', ''Art & Images''), (''art/portrait'', ''Art & Images / Portrait''),
      (''code'', ''Code & Technical''), (''other'', ''Other'')]"

definition scenario_state :: state where
  "scenario_state =
     (let s = addSampleData ''p1'' ''p4'' ''t1'' ''t2'' ''t3'' ''t4''
                (initial_state scenario_items scenario_options OutsideGrid);
          a = prompts s ! 0;
          c = prompts s ! 1
      in loadPrompts
           (s\<lparr>currentCategory := ''all'',
              prompts := [a, a\<lparr>id' := ''p2''\<rparr>,
                          a\<lparr>id' := ''p3'', category := ''art/portrait''\<rparr>,
                          c, c\<lparr>id' := ''p5'', category := ''other''\<rparr>]\<rparr>))"


section \<open>Sharing a prompt (\<open>sharePrompt\<close>, \<open>checkSharedPrompt\<close>)\<close>

text \<open>The object \<open>shareData\<close>; an undefined rating is a missing property.\<close>

record share_data =
  sd_title :: string
  sd_category :: string
  sd_tags :: "string list"
  sd_text :: string
  sd_notes :: string
  sd_rating :: "int option"

text \<open>
  \<open>JSON.stringify\<close> on that object. A string is quoted with the escapes of
  \<open>QuoteJSONString\<close>: backspace, tab, line feed, form feed, carriage return, double
  quote and backslash get their two-character escapes, any other code unit below 0x20
  becomes \<open>\u00XX\<close> in lower-case hexadecimal, everything else stands for itself. An
  integer is printed in decimal. A property whose value is undefined is left out.
\<close>

definition hex_digit :: "nat \<Rightarrow> char" where
  "hex_digit n = ''0123456789abcdef'' ! n"

definition json_escape :: "char \<Rightarrow> string" where
  "json_escape c =
     (let n = (of_char c :: nat)
      in if n = 8 then [CHR 0x5C, CHR ''b'']
         else if n = 9 then [CHR 0x5C, CHR ''t'']
         else if n = 10 then [CHR 0x5C, CHR ''n'']
         else if n = 12 then [CHR 0x5C, CHR ''f'']
         else if n = 13 then [CHR 0x5C, CHR ''r'']
         else if n = 34 then [CHR 0x5C, CHR 0x22]
         else if n = 92 then [CHR 0x5C, CHR 0x5C]
         else if n < 32
         then [CHR 0x5C, CHR ''u'', CHR ''0'', CHR ''0'', hex_digit (n div 16), hex_digit (n mod 16)]
         else [c])"

definition json_quote :: "string \<Rightarrow> string" where
  "json_quote str = [CHR 0x22] @ concat (map json_escape str) @ [CHR 0x22]"

fun show_nat :: "nat \<Rightarrow> string" where
  "show_nat n =
     (if n < 10 then [''0123456789'' ! n]
      else show_nat (n div 10) @ [''0123456789'' ! (n mod 10)])"

definition show_int :: "int \<Rightarrow> string" where
  "show_int i = (if i < 0 then ''-'' @ show_nat (nat (- i)) else show_nat (nat i))"

fun join :: "string \<Rightarrow> string list \<Rightarrow> string" where
  "join sep [] = []"
| "join sep [x] = x"
| "join sep (x # y # ys) = x @ sep @ join sep (y # ys)"

definition JSON_stringify :: "share_data \<Rightarrow> string" where
  "JSON_stringify d =
     ''{'' @ json_quote ''title'' @ '':'' @ json_quote (sd_title d)
     @ '','' @ json_quote ''category'' @ '':'' @ json_quote (sd_category d)
     @ '','' @ json_quote ''tags'' @ '':['' @ join '','' (map json_quote (sd_tags d)) @ '']''
     @ '','' @ json_quote ''text'' @ '':'' @ json_quote (sd_text d)
     @ '','' @ json_quote ''notes'' @ '':'' @ json_quote (sd_notes d)
     @ (case sd_rating d of
          None \<Rightarrow> []
        | Some r \<Rightarrow> '','' @ json_quote ''rating'' @ '':'' @ show_int r)
     @ ''}''"

text \<open>
  \<open>btoa\<close>: base64 with padding over the code units of the string. It raises
  \<open>InvalidCharacterError\<close> for a code unit above 0xFF, which an 8-bit character never
  is, so the model has no error branch.
\<close>

definition b64_char :: "nat \<Rightarrow> char" where
  "b64_char n = ''ABCDEFGHIJKLMNOPQRSTUVWXYZabcdefghijklmnopqrstuvwxyz0123456789+/'' ! n"

fun b64_encode :: "nat list \<Rightarrow> string" where
  "b64_encode [] = []"
| "b64_encode [a] = [b64_char (a div 4), b64_char ((a mod 4) * 16), CHR ''='', CHR ''='']"
| "b64_encode [a, b] =
     [b64_char (a div 4), b64_char ((a mod 4) * 16 + b div 16),
      b64_char ((b mod 16) * 4), CHR ''='']"
| "b64_encode (a # b # c # rest) =
     [b64_char (a div 4), b64_char ((a mod 4) * 16 + b div 16),
      b64_char ((b mod 16) * 4 + c div 64), b64_char (c mod 64)] @ b64_encode rest"

definition btoa :: "string \<Rightarrow> string" where
  "btoa str = b64_encode (map of_char str)"

text \<open>
  \<open>atob\<close>, the forgiving base64 decoding: ASCII whitespace is removed; when the length is
  a multiple of four, one or two trailing equals signs are removed; a length that leaves
  remainder one, or any character outside the alphabet, raises
  \<open>InvalidCharacterError\<close>; otherwise the six-bit groups are decoded, the bits left
  over at the end being dropped.
\<close>

definition b64_index :: "char \<Rightarrow> nat option" where
  "b64_index c =
     findIndex (\<lambda>x. x = c)
       ''ABCDEFGHIJKLMNOPQRSTUVWXYZabcdefghijklmnopqrstuvwxyz0123456789+/''"

definition strip_padding :: "string \<Rightarrow> string" where
  "strip_padding d =
     (if length d mod 4 = 0
      then (if 2 \<le> length d \<and> drop (length d - 2) d = ''==''
            then take (length d - 2) d
            else if 1 \<le> length d \<and> drop (length d - 1) d = ''=''
            then take (length d - 1) d
            else d)
      else d)"

fun b64_decode :: "nat list \<Rightarrow> nat list" where
  "b64_decode (a # b # c # d # rest) =
     [a * 4 + b div 16, (b mod 16) * 16 + c div 4, (c mod 4) * 64 + d] @ b64_decode rest"
| "b64_decode [a, b, c] = [a * 4 + b div 16, (b mod 16) * 16 + c div 4]"
| "b64_decode [a, b] = [a * 4 + b div 16]"
| "b64_decode _ = []"

definition atob :: "string \<Rightarrow> js_error + string" where
  "atob dat =
     (let d = strip_padding (filter (\<lambda>c. \<not> ascii_whitespace c) dat)
      in if length d mod 4 = 1 then Inl InvalidCharacterError
         else if list_ex (\<lambda>c. b64_index c = None) d then Inl InvalidCharacterError
         else Inr (map char_of (b64_decode (map (\<lambda>c. the (b64_index c)) d))))"

text \<open>
  \<open>sharePrompt\<close>: the share URL it hands to the clipboard, \<open>None\<close> when the prompt is not
  found. The first argument is \<open>window.location.origin + window.location.pathname\<close>.
\<close>

definition sharePrompt :: "string \<Rightarrow> string \<Rightarrow> state \<Rightarrow> string option" where
  "sharePrompt location promptId s =
     (case find (\<lambda>p. id' p = promptId) (prompts s) of
        None \<Rightarrow> None
      | Some p \<Rightarrow>
          (let shareData = \<lparr>sd_title = title p, sd_category = category p, sd_tags = tags p,
                            sd_text = text' p, sd_notes = notes' p, sd_rating = rating p\<rparr>;
               encodedPrompt = btoa (JSON_stringify shareData)
           in Some (location @ ''?shared='' @ encodedPrompt)))"

text \<open>
  \<open>new URLSearchParams(window.location.search).get(name)\<close>: a leading question mark is
  dropped, the string is split at ampersands, each non-empty piece at its first equals
  sign, and every plus sign in a name or value becomes a space. The percent-decoding that
  follows is left out: it changes nothing in a string without a percent sign.
\<close>

fun split_on :: "'a \<Rightarrow> 'a list \<Rightarrow> 'a list list" where
  "split_on c [] = [[]]"
| "split_on c (x # xs) =
     (if x = c then [] # split_on c xs
      else (case split_on c xs of
              [] \<Rightarrow> [[x]]
            | y # ys \<Rightarrow> (x # y) # ys))"

definition plus_to_space :: "string \<Rightarrow> string" where
  "plus_to_space str = map (\<lambda>c. if c = CHR ''+'' then CHR '' '' else c) str"

definition parse_pair :: "string \<Rightarrow> string \<times> string" where
  "parse_pair piece =
     (let name = takeWhile (\<lambda>c. c \<noteq> CHR ''='') piece;
          val = drop (length name + 1) piece
      in (plus_to_space name, plus_to_space val))"

definition URLSearchParams_get :: "string \<Rightarrow> string \<Rightarrow> string option" where
  "URLSearchParams_get search name =
     (let query = (case search of c # rest \<Rightarrow> (if c = CHR ''?'' then rest else search)
                                | [] \<Rightarrow> [])
      in map_of (map parse_pair (filter (\<lambda>piece. piece \<noteq> []) (split_on CHR ''&'' query)))
           name)"

text \<open>
  The object \<open>JSON.parse\<close> returns, as far as \<open>checkSharedPrompt\<close> reads it (a missing
  property is \<open>None\<close>), and the values the function then writes into the form. \<open>JSON.parse\<close>
  itself is a parameter of the model.
\<close>

record prompt_data =
  pd_title :: "string option"
  pd_category :: "string option"
  pd_tags :: "string list option"
  pd_text :: "string option"
  pd_notes :: "string option"
  pd_rating :: "int option"

record shared_form =
  promptTitle :: string
  promptCategory_value :: string
  promptTags :: string
  promptText :: string
  promptNotes :: string
  promptRating :: "int option"

definition or_else :: "string option \<Rightarrow> string \<Rightarrow> string" where
  "or_else v dflt = (case v of None \<Rightarrow> dflt | Some x \<Rightarrow> (if x = [] then dflt else x))"

text \<open>
  \<open>checkSharedPrompt\<close> for the query string of the page: \<open>None\<close> when there is no
  (or an empty) parameter \<open>shared\<close>; otherwise the values loaded into the form, or the
  exception that the \<open>catch\<close> block reports as "Error loading shared prompt". The rating
  field is written only for a rating other than 0.
\<close>

definition checkSharedPrompt :: "(string \<Rightarrow> js_error + prompt_data) \<Rightarrow> string \<Rightarrow> (js_error + shared_form) option" where
  "checkSharedPrompt JSON_parse search =
     (case URLSearchParams_get search ''shared'' of
        None \<Rightarrow> None
      | Some sharedData \<Rightarrow>
          if sharedData = [] then None
          else Some
            (case atob sharedData of
               Inl e \<Rightarrow> Inl e
             | Inr decoded \<Rightarrow>
                 (case JSON_parse decoded of
                    Inl e \<Rightarrow> Inl e
                  | Inr promptData \<Rightarrow>
                      Inr \<lparr>promptTitle = or_else (pd_title promptData) [],
                           promptCategory_value = or_else (pd_category promptData) ''other'',
                           promptTags = join '', ''
                             (case pd_tags promptData of None \<Rightarrow> [] | Some ts \<Rightarrow> ts),
                           promptText = or_else (pd_text promptData) [],
                           promptNotes = or_else (pd_notes promptData) [],
                           promptRating =
                             (case pd_rating promptData of
                                None \<Rightarrow> None
                              | Some r \<Rightarrow> (if r = 0 then None else Some r))\<rparr>)))"


section \<open>Properties of the similarity engine\<close>


lemma foldl_inner_zero:
  "foldl (inner_step s1 s2 0) ([], l) [0..<k] = ([0..<k], l)"
  by (induction k) (auto simp: inner_step_def array_set_def)

lemma row_zero: "row s1 s2 [] 0 = [0..<length s2 + 1]"
  unfolding row_def foldl_inner_zero by simp

lemma inner_step_pos:
  assumes "0 < i"
  shows "inner_step s1 s2 i (c, lv) (Suc k) =
     (array_set c k lv,
      if s1 ! (i - 1) \<noteq> s2 ! k then min (min (c ! k) lv) (c ! Suc k) + 1 else c ! k)"
  using assms by (simp add: inner_step_def Let_def)

lemma inner_step_pos_0:
  assumes "0 < i"
  shows "inner_step s1 s2 i (c, lv) 0 = (c, lv)"
  using assms by (simp add: inner_step_def)

lemma inner_bound:
  assumes i: "0 < i" and len: "length c = Suc n"
    and old: "\<forall>m\<le>n. c ! m \<le> max (i - 1) m" and k: "k \<le> n"
  shows "case foldl (inner_step s1 s2 i) (c, i) [0..<Suc k] of
           (c', lv) \<Rightarrow> length c' = Suc n \<and> (\<forall>m<k. c' ! m \<le> max i m)
              \<and> (\<forall>m. k \<le> m \<and> m \<le> n \<longrightarrow> c' ! m = c ! m) \<and> lv \<le> max i k"
  using k
proof (induction k)
  case 0
  show ?case using i len by (simp add: inner_step_pos_0)
next
  case (Suc k)
  obtain c' lv where st: "foldl (inner_step s1 s2 i) (c, i) [0..<Suc k] = (c', lv)"
    by (cases "foldl (inner_step s1 s2 i) (c, i) [0..<Suc k]")
  from Suc st have IH: "length c' = Suc n" "\<forall>m<k. c' ! m \<le> max i m"
    "\<forall>m. k \<le> m \<and> m \<le> n \<longrightarrow> c' ! m = c ! m" "lv \<le> max i k"
    by auto
  have ck: "c' ! k \<le> max (i - 1) k" using IH(3) old Suc.prems by auto
  have step: "foldl (inner_step s1 s2 i) (c, i) [0..<Suc (Suc k)]
      = (c'[k := lv], if s1 ! (i - 1) \<noteq> s2 ! k then min (min (c' ! k) lv) (c' ! Suc k) + 1 else c' ! k)"
    using st i IH(1) Suc.prems by (simp add: inner_step_pos array_set_def)
  have nv: "(if s1 ! (i - 1) \<noteq> s2 ! k then min (min (c' ! k) lv) (c' ! Suc k) + 1 else c' ! k)
      \<le> max i (Suc k)"
    using ck i by auto
  have upd: "\<forall>m<Suc k. c'[k := lv] ! m \<le> max i m"
  proof (intro allI impI)
    fix m assume "m < Suc k"
    then show "c'[k := lv] ! m \<le> max i m"
      using IH(1,2,4) Suc.prems by (cases "m = k") auto
  qed
  have rest: "\<forall>m. Suc k \<le> m \<and> m \<le> n \<longrightarrow> c'[k := lv] ! m = c ! m"
    using IH(3) by auto
  show ?case unfolding step using IH(1) nv upd rest by simp
qed

lemma row_bound:
  assumes i: "0 < i" and len: "length c = Suc (length s2)"
    and old: "\<forall>m\<le>length s2. c ! m \<le> max (i - 1) m"
  shows "length (row s1 s2 c i) = Suc (length s2)
     \<and> (\<forall>m\<le>length s2. row s1 s2 c i ! m \<le> max i m)"
proof -
  obtain c' lv where st: "foldl (inner_step s1 s2 i) (c, i) [0..<Suc (length s2)] = (c', lv)"
    by (cases "foldl (inner_step s1 s2 i) (c, i) [0..<Suc (length s2)]")
  from inner_bound[OF i len old le_refl, of s1 s2] st
  have IH: "length c' = Suc (length s2)" "\<forall>m<length s2. c' ! m \<le> max i m"
    "lv \<le> max i (length s2)"
    by auto
  have r: "row s1 s2 c i = c'[length s2 := lv]"
    using st i IH(1) by (simp add: row_def array_set_def)
  have "\<forall>m\<le>length s2. c'[length s2 := lv] ! m \<le> max i m"
  proof (intro allI impI)
    fix m assume "m \<le> length s2"
    then show "c'[length s2 := lv] ! m \<le> max i m"
      using IH by (cases "m = length s2") auto
  qed
  then show ?thesis using r IH(1) by simp
qed

lemma rows_bound:
  "length (foldl (row s1 s2) [] [0..<Suc k]) = Suc (length s2)
     \<and> (\<forall>m\<le>length s2. foldl (row s1 s2) [] [0..<Suc k] ! m \<le> max k m)"
proof (induction k)
  case 0
  have "foldl (row s1 s2) [] [0..<Suc 0] = [0..<length s2 + 1]"
    using row_zero[of s1 s2] by simp
  then show ?case by (auto simp del: upt_Suc simp: nth_upt)
next
  case (Suc k)
  have "foldl (row s1 s2) [] [0..<Suc (Suc k)]
      = row s1 s2 (foldl (row s1 s2) [] [0..<Suc k]) (Suc k)"
    by simp
  then show ?case using row_bound[of "Suc k" "foldl (row s1 s2) [] [0..<Suc k]" s2 s1] Suc
    by simp
qed

lemma getEditDistance_le: "getEditDistance s1 s2 \<le> max (length s1) (length s2)"
  using rows_bound[of s1 s2 "length s1"] by (simp add: getEditDistance_def)


lemma inner_diag:
  assumes i: "0 < i" and len: "length c = Suc n" and "i \<le> n"
    and old: "c ! (i - 1) = 0" and eq: "s1 ! (i - 1) = s2 ! (i - 1)" and k: "k \<le> n"
  shows "case foldl (inner_step s1 s2 i) (c, i) [0..<Suc k] of
           (c', lv) \<Rightarrow> length c' = Suc n \<and> (k < i \<longrightarrow> c' ! (i - 1) = 0)
              \<and> (k = i \<longrightarrow> lv = 0) \<and> (i < k \<longrightarrow> c' ! i = 0)"
  using k
proof (induction k)
  case 0
  show ?case using i len old by (simp add: inner_step_pos_0)
next
  case (Suc k)
  obtain c' lv where st: "foldl (inner_step s1 s2 i) (c, i) [0..<Suc k] = (c', lv)"
    by (cases "foldl (inner_step s1 s2 i) (c, i) [0..<Suc k]")
  from Suc st have IH: "length c' = Suc n" "k < i \<longrightarrow> c' ! (i - 1) = 0"
    "k = i \<longrightarrow> lv = 0" "i < k \<longrightarrow> c' ! i = 0"
    by auto
  have step: "foldl (inner_step s1 s2 i) (c, i) [0..<Suc (Suc k)]
      = (c'[k := lv], if s1 ! (i - 1) \<noteq> s2 ! k then min (min (c' ! k) lv) (c' ! Suc k) + 1 else c' ! k)"
    using st i IH(1) Suc.prems by (simp add: inner_step_pos array_set_def)
  have a: "Suc k < i \<longrightarrow> c'[k := lv] ! (i - 1) = 0"
    using IH(2) by auto
  have b: "Suc k = i \<longrightarrow>
      (if s1 ! (i - 1) \<noteq> s2 ! k then min (min (c' ! k) lv) (c' ! Suc k) + 1 else c' ! k) = 0"
    using IH(2) eq by auto
  have c: "i < Suc k \<longrightarrow> c'[k := lv] ! i = 0"
    using IH(1,3,4) Suc.prems by (cases "k = i") auto
  show ?case unfolding step using IH(1) a b c by simp
qed

lemma row_diag:
  assumes i: "0 < i" and len: "length c = Suc (length s2)" and le: "i \<le> length s2"
    and old: "c ! (i - 1) = 0" and eq: "s1 ! (i - 1) = s2 ! (i - 1)"
  shows "row s1 s2 c i ! i = 0"
proof -
  obtain c' lv where st: "foldl (inner_step s1 s2 i) (c, i) [0..<Suc (length s2)] = (c', lv)"
    by (cases "foldl (inner_step s1 s2 i) (c, i) [0..<Suc (length s2)]")
  from inner_diag[OF i len le old eq le_refl] st
  have IH: "length c' = Suc (length s2)" "length s2 = i \<longrightarrow> lv = 0"
    "i < length s2 \<longrightarrow> c' ! i = 0"
    by auto
  have r: "row s1 s2 c i = c'[length s2 := lv]"
    using st i IH(1) by (simp add: row_def array_set_def)
  show ?thesis unfolding r using IH le by (cases "i = length s2") auto
qed

lemma rows_diag:
  "k \<le> length a \<Longrightarrow> foldl (row a a) [] [0..<Suc k] ! k = 0"
proof (induction k)
  case 0
  have "foldl (row a a) [] [0..<Suc 0] = [0..<length a + 1]"
    using row_zero[of a a] by simp
  then show ?case by (simp del: upt_Suc add: nth_upt)
next
  case (Suc k)
  have "foldl (row a a) [] [0..<Suc (Suc k)]
      = row a a (foldl (row a a) [] [0..<Suc k]) (Suc k)"
    by simp
  moreover have "row a a (foldl (row a a) [] [0..<Suc k]) (Suc k) ! Suc k = 0"
    using Suc rows_bound[of a a k] by (intro row_diag) auto
  ultimately show ?case by simp
qed

lemma getEditDistance_same: "getEditDistance a a = 0"
  using rows_diag[of "length a" a] by (simp add: getEditDistance_def)

lemma calculateSimilarity_range:
  "0 \<le> calculateSimilarity a b \<and> calculateSimilarity a b \<le> 1"
proof (cases "length b < length a")
  case True
  have "getEditDistance a b \<le> length a"
    using getEditDistance_le[of a b] True by simp
  then show ?thesis using True by (simp add: calculateSimilarity_def)
next
  case False
  have "getEditDistance b a \<le> length b"
    using getEditDistance_le[of b a] False by simp
  then show ?thesis using False by (simp add: calculateSimilarity_def)
qed

text \<open>
  Claim C3. For all strings \<open>a\<close> and \<open>b\<close> the similarity lies between 0 and 1, the
  similarity of a string with itself is 1, and the similarity of two empty strings is 1.
\<close>

theorem calculateSimilarity_bounds:
  "0 \<le> calculateSimilarity a b \<and> calculateSimilarity a b \<le> 1
   \<and> calculateSimilarity a a = 1 \<and> calculateSimilarity [] [] = 1"
  using calculateSimilarity_range[of a b]
  by (simp add: calculateSimilarity_def getEditDistance_same)



section \<open>Properties of the duplicate detection\<close>


lemma sim_example:
  "calculateSimilarity ''Create a Python script'' ''Create a Python scripts'' = 22 / 23"
proof -
  have "getEditDistance ''Create a Python scripts'' ''Create a Python script'' = 1"
    by code_simp
  then show ?thesis by (simp add: calculateSimilarity_def)
qed

lemma round_example: "round ((2200::real) / 23) = 96"
  by (simp add: round_def)

text \<open>
  Claim C4. \<open>findDuplicatePrompts\<close> reports a pair of records (taken once, the earlier
  record first) exactly when the similarity of their texts is strictly above 0.7, with the
  percentage \<open>round (similarity * 100)\<close>; for the texts "Create a Python script" and
  "Create a Python scripts" the pair is reported with 96 percent.
\<close>

theorem findDuplicatePrompts_reports:
  "(d \<in> set (findDuplicatePrompts ps) \<longleftrightarrow>
      (\<exists>i j. i < j \<and> j < length ps
         \<and> calculateSimilarity (text' (ps ! i)) (text' (ps ! j)) > 7 / 10
         \<and> d = \<lparr>prompt1 = ps ! i, prompt2 = ps ! j,
                 similarity = round (calculateSimilarity (text' (ps ! i)) (text' (ps ! j)) * 100)\<rparr>))
   \<and> findDuplicatePrompts
        [a\<lparr>text' := ''Create a Python script''\<rparr>, b\<lparr>text' := ''Create a Python scripts''\<rparr>]
      = [\<lparr>prompt1 = a\<lparr>text' := ''Create a Python script''\<rparr>,
          prompt2 = b\<lparr>text' := ''Create a Python scripts''\<rparr>, similarity = 96\<rparr>]"
proof
  show "d \<in> set (findDuplicatePrompts ps) \<longleftrightarrow>
      (\<exists>i j. i < j \<and> j < length ps
         \<and> calculateSimilarity (text' (ps ! i)) (text' (ps ! j)) > 7 / 10
         \<and> d = \<lparr>prompt1 = ps ! i, prompt2 = ps ! j,
                 similarity = round (calculateSimilarity (text' (ps ! i)) (text' (ps ! j)) * 100)\<rparr>)"
  proof -
    define rec where "rec i j = \<lparr>prompt1 = ps ! i, prompt2 = ps ! j,
        similarity = round (calculateSimilarity (text' (ps ! i)) (text' (ps ! j)) * 100)\<rparr>" for i j
    define inner where "inner i = concat (map (\<lambda>j.
         if calculateSimilarity (text' (ps ! i)) (text' (ps ! j)) > 7 / 10 then [rec i j] else [])
         [i + 1..<length ps])" for i
    have fd: "findDuplicatePrompts ps = concat (map inner [0..<length ps])"
      unfolding findDuplicatePrompts_def inner_def rec_def Let_def by simp
    define Q where "Q i j \<longleftrightarrow>
        calculateSimilarity (text' (ps ! i)) (text' (ps ! j)) > 7 / 10 \<and> d = rec i j" for i j
    have mem_inner: "d \<in> set (inner i) \<longleftrightarrow> (\<exists>j. i < j \<and> j < length ps \<and> Q i j)" for i
      unfolding inner_def Q_def by (fastforce split: if_splits simp: Suc_le_eq)
    have "d \<in> set (findDuplicatePrompts ps) \<longleftrightarrow> (\<exists>i<length ps. d \<in> set (inner i))"
      unfolding fd by auto
    also have "\<dots> \<longleftrightarrow> (\<exists>i j. i < j \<and> j < length ps \<and> Q i j)"
      unfolding mem_inner by (meson less_trans)
    finally show ?thesis unfolding Q_def rec_def .
  qed
next
  have upt: "[0..<2] = [0, 1]" "[1..<2] = [1]" "[2..<2] = []"
    by (simp_all add: upt_rec)
  show "findDuplicatePrompts
        [a\<lparr>text' := ''Create a Python script''\<rparr>, b\<lparr>text' := ''Create a Python scripts''\<rparr>]
      = [\<lparr>prompt1 = a\<lparr>text' := ''Create a Python script''\<rparr>,
          prompt2 = b\<lparr>text' := ''Create a Python scripts''\<rparr>, similarity = 96\<rparr>]"
    unfolding findDuplicatePrompts_def Let_def
    by (simp add: upt sim_example round_example)
qed




section \<open>Properties of the favourites\<close>

lemma favorites_loadPrompts [simp]: "favorites (loadPrompts s) = favorites s"
  and prompts_loadPrompts [simp]: "prompts (loadPrompts s) = prompts s"
  and undoStack_loadPrompts [simp]: "undoStack (loadPrompts s) = undoStack s"
  and redoStack_loadPrompts [simp]: "redoStack (loadPrompts s) = redoStack s"
  and searchCache_loadPrompts [simp]: "searchCache (loadPrompts s) = searchCache s"
  and currentCategory_loadPrompts [simp]: "currentCategory (loadPrompts s) = currentCategory s"
  and editingPromptId_loadPrompts [simp]: "editingPromptId (loadPrompts s) = editingPromptId s"
  and pendingConfirmAction_loadPrompts [simp]:
    "pendingConfirmAction (loadPrompts s) = pendingConfirmAction s"
  and categoryList_loadPrompts [simp]: "categoryList (loadPrompts s) = categoryList s"
  and promptCategory_loadPrompts [simp]: "promptCategory (loadPrompts s) = promptCategory s"
  by (simp_all add: loadPrompts_def updateEmptyState_def Let_def)

lemma favorites_toggleFavorite:
  "favorites (toggleFavorite i s) =
     (if i \<in> set (favorites s) then remove1 i (favorites s) else favorites s @ [i])"
  by (simp add: toggleFavorite_def Let_def)

lemma toggleFavorite_distinct:
  "distinct (favorites s) \<Longrightarrow> distinct (favorites (toggleFavorite i s))"
  by (simp add: favorites_toggleFavorite)

text \<open>
  Claim C10. On a favourites list without repeated ids, one call of \<open>toggleFavorite\<close>
  flips the membership of exactly the given id and leaves the prompts and both history
  stacks as they were; two calls in a row give back the same members.
\<close>

theorem toggleFavorite_flips:
  assumes "distinct (favorites s)"
  shows "set (favorites (toggleFavorite i s)) =
           (if i \<in> set (favorites s) then set (favorites s) - {i}
            else insert i (set (favorites s)))
       \<and> set (favorites (toggleFavorite i (toggleFavorite i s))) = set (favorites s)
       \<and> prompts (toggleFavorite i s) = prompts s
       \<and> undoStack (toggleFavorite i s) = undoStack s
       \<and> redoStack (toggleFavorite i s) = redoStack s"
proof -
  have one: "set (favorites (toggleFavorite i s)) =
           (if i \<in> set (favorites s) then set (favorites s) - {i}
            else insert i (set (favorites s)))"
    using assms by (simp add: favorites_toggleFavorite)
  have two: "set (favorites (toggleFavorite i (toggleFavorite i s))) = set (favorites s)"
    using assms by (auto simp: favorites_toggleFavorite)
  have rest: "prompts (toggleFavorite i s) = prompts s"
    "undoStack (toggleFavorite i s) = undoStack s"
    "redoStack (toggleFavorite i s) = redoStack s"
    by (simp_all add: toggleFavorite_def Let_def)
  from one two rest show ?thesis by simp
qed

theorem toggleFavorite_flips_witness:
  "distinct (favorites ((initial_state [] [] OutsideGrid)\<lparr>favorites := [''p1'', ''p2'']\<rparr>))
   \<and> set (favorites (toggleFavorite ''p1'' ((initial_state [] [] OutsideGrid)\<lparr>favorites := [''p1'', ''p2'']\<rparr>)))
       = {''p2''}
   \<and> set (favorites (toggleFavorite ''p3'' ((initial_state [] [] OutsideGrid)\<lparr>favorites := [''p1'', ''p2'']\<rparr>)))
       = {''p1'', ''p2'', ''p3''}
   \<and> set (favorites (toggleFavorite ''p1''
            (toggleFavorite ''p1'' ((initial_state [] [] OutsideGrid)\<lparr>favorites := [''p1'', ''p2'']\<rparr>))))
       = {''p1'', ''p2''}"
proof -
  have d: "distinct (favorites ((initial_state [] [] OutsideGrid)\<lparr>favorites := [''p1'', ''p2'']\<rparr>))"
    by (simp add: initial_state_def)
  show ?thesis
    using d toggleFavorite_flips[OF d, of "''p1''"] toggleFavorite_flips[OF d, of "''p3''"]
    by (auto simp: initial_state_def)
qed




section \<open>Properties of the history\<close>

lemma last_saveState: "last (undoStack (saveState s)) = prompts s"
  by (cases "undoStack s") (simp_all add: saveState_def Let_def)

lemma saveState_nonempty: "undoStack (saveState s) \<noteq> []"
  by (cases "undoStack s") (simp_all add: saveState_def Let_def)

lemma prompts_saveState [simp]: "prompts (saveState s) = prompts s"
  and editingPromptId_saveState [simp]: "editingPromptId (saveState s) = editingPromptId s"
  by (simp_all add: saveState_def Let_def)

lemma savePrompt_create:
  assumes "form_title f \<noteq> []" "form_category f \<noteq> []" "form_text f \<noteq> []"
  shows "prompts (savePrompt f newId t1 t2 (addNewPrompt s)) =
           \<lparr>id' = newId, title = form_title f, category = form_category f,
            tags = form_tags f, text' = form_text f, notes' = form_notes f,
            rating = Some (form_rating f), resultImages = form_resultImages f,
            inputImage = form_inputImage f, createdAt = t1, updatedAt = t2\<rparr> # prompts s"
    and "undoStack (savePrompt f newId t1 t2 (addNewPrompt s)) = undoStack (saveState s)"
  using assms by (simp_all add: savePrompt_def addNewPrompt_def Let_def saveState_def)

lemma delete_confirmed_head:
  assumes "prompts s = p # ps" "id' p = i"
  shows "prompts (confirmOk (deletePrompt i s)) = ps"
    and "undoStack (confirmOk (deletePrompt i s)) = undoStack s"
  using assms by (simp_all add: confirmOk_def deletePrompt_def deletePrompt_confirmed_def)

text \<open>
  Claim C1 on the code. A record is created (\<open>addNewPrompt\<close>, then \<open>savePrompt\<close> with a
  valid form), deleted through the confirm dialog, and \<open>undo\<close> is called. The deletion
  pushes no snapshot, so \<open>undo\<close> pops the snapshot taken before the creation: the
  collection is the one before the creation, and the deleted record is not in it when its
  id is new.
\<close>

theorem create_delete_undo:
  assumes "form_title f \<noteq> []" "form_category f \<noteq> []" "form_text f \<noteq> []"
    and "newId \<notin> id' ` set (prompts s)"
  shows "undoStack (confirmOk (deletePrompt newId (savePrompt f newId t1 t2 (addNewPrompt s))))
           = undoStack (savePrompt f newId t1 t2 (addNewPrompt s))
       \<and> prompts (undo (confirmOk (deletePrompt newId
             (savePrompt f newId t1 t2 (addNewPrompt s))))) = prompts s
       \<and> find (\<lambda>p. id' p = newId) (prompts (undo (confirmOk (deletePrompt newId
             (savePrompt f newId t1 t2 (addNewPrompt s)))))) = None"
proof -
  let ?s1 = "savePrompt f newId t1 t2 (addNewPrompt s)"
  let ?s2 = "confirmOk (deletePrompt newId ?s1)"
  let ?new = "\<lparr>id' = newId, title = form_title f, category = form_category f,
            tags = form_tags f, text' = form_text f, notes' = form_notes f,
            rating = Some (form_rating f), resultImages = form_resultImages f,
            inputImage = form_inputImage f, createdAt = t1, updatedAt = t2\<rparr>"
  have p1: "prompts ?s1 = ?new # prompts s" and u1: "undoStack ?s1 = undoStack (saveState s)"
    using savePrompt_create[OF assms(1-3)] by simp_all
  have p2: "prompts ?s2 = prompts s" and u2: "undoStack ?s2 = undoStack ?s1"
    using delete_confirmed_head[OF p1] by simp_all
  have p3: "prompts (undo ?s2) = prompts s"
    using u1 u2 saveState_nonempty[of s] last_saveState[of s] by (simp add: undo_def)
  have "find (\<lambda>p. id' p = newId) (prompts s) = None"
    using assms(4) by (auto simp: find_None_iff)
  with p3 u2 show ?thesis by simp
qed

theorem create_delete_undo_witness:
  "prompts (undo (confirmOk (deletePrompt ''n1''
      (savePrompt \<lparr>form_title = ''T'', form_category = ''art'', form_tags = [],
                   form_text = ''X'', form_notes = [], form_rating = 0,
                   form_resultImages = [], form_inputImage = None\<rparr>
         ''n1'' ''t1'' ''t2'' (addNewPrompt (initial_state [] [] OutsideGrid)))))) = []"
  using create_delete_undo[of "\<lparr>form_title = ''T'', form_category = ''art'', form_tags = [],
                   form_text = ''X'', form_notes = [], form_rating = 0,
                   form_resultImages = [], form_inputImage = None\<rparr>" "''n1''"
                   "initial_state [] [] OutsideGrid" "''t1''" "''t2''"]
  by (simp add: initial_state_def)




section \<open>Properties of the category items\<close>


lemma li_keys_Cons: "li_keys (x # xs) = li_keys [x] @ li_keys xs"
  by (simp add: li_keys_def querySelectorAll_li_def)









lemma scenario_categoryList: "categoryList scenario_state = scenario_items"
  by (simp add: scenario_state_def addSampleData_def initial_state_def Let_def)






section \<open>Renaming a category\<close>

lemma answers_normalised:
  "toLowerCase ''Art/New'' = ''art/new''" "trim ''Art/New'' = ''Art/New''"
  "toLowerCase ''X'' = ''x''" "trim ''X'' = ''X''"
  "toLowerCase ''Misc'' = ''misc''" "trim ''Misc'' = ''Misc''"
  "toLowerCase ''Favs'' = ''favs''" "trim ''Favs'' = ''Favs''"
  by code_simp+

lemma prefix_slash_cases:
  assumes "prefix (a @ ''/'') (b @ ''/'' @ r)"
  shows "a = b \<or> prefix (a @ ''/'') b \<or> prefix (b @ ''/'') a"
proof -
  have "prefix (b @ ''/'') (b @ ''/'' @ r)" by simp
  with assms have "prefix (a @ ''/'') (b @ ''/'') \<or> prefix (b @ ''/'') (a @ ''/'')"
    using prefix_same_cases by blast
  then show ?thesis by (auto simp: prefix_snoc)
qed

lemma renamed_category_free:
  assumes ne: "newKey \<noteq> oldKey" and n1: "\<not> prefix (oldKey @ ''/'') newKey"
    and n2: "\<not> prefix (newKey @ ''/'') oldKey"
    and c: "c = oldKey \<or> prefix (oldKey @ ''/'') c"
  shows "newKey @ drop (length oldKey) c \<noteq> oldKey
       \<and> \<not> prefix (oldKey @ ''/'') (newKey @ drop (length oldKey) c)"
proof (cases "c = oldKey")
  case True
  then show ?thesis using ne n1 by simp
next
  case False
  with c obtain r where r: "c = oldKey @ ''/'' @ r" by (auto simp: prefix_def)
  have d: "newKey @ drop (length oldKey) c = newKey @ ''/'' @ r" using r by simp
  have "newKey @ ''/'' @ r \<noteq> oldKey"
  proof
    assume "newKey @ ''/'' @ r = oldKey"
    then have "prefix (newKey @ ''/'') oldKey" by (metis append.assoc prefixI)
    with n2 show False by simp
  qed
  moreover have "\<not> prefix (oldKey @ ''/'') (newKey @ ''/'' @ r)"
    using prefix_slash_cases[of oldKey newKey r] ne n1 n2 by auto
  ultimately show ?thesis unfolding d by simp
qed

lemma prompts_updateDescendantKeys:
  "prompts (updateDescendantKeys oldKey newKey newDisplay s) =
     map (\<lambda>p. if category p = oldKey \<or> prefix (oldKey @ ''/'') (category p)
               then p\<lparr>category := newKey @ drop (length oldKey) (category p)\<rparr> else p)
         (prompts s)"
  by (auto simp: updateDescendantKeys_def Let_def startsWith_def)

text \<open>
  Claim C2, amended. Let the keys that \<open>updateDescendantKeys\<close> puts into selectors be
  free of quotes, backslashes and line breaks, and let the new key differ from the old
  one with neither of the two being the other followed by a slash and more. Then every
  record whose category is the old key or starts with the old key and a slash has that
  prefix replaced by the new key, the other records are unchanged, and afterwards no
  record's category is the old key or starts with the old key and a slash.
\<close>

theorem rename_cascade:
  assumes "selector_safe oldKey" "list_all selector_safe (li_keys (categoryList s))"
    and "newKey \<noteq> oldKey" "\<not> prefix (oldKey @ ''/'') newKey"
    and "\<not> prefix (newKey @ ''/'') oldKey"
  shows "prompts (updateDescendantKeys oldKey newKey newDisplay s) =
           map (\<lambda>p. if category p = oldKey \<or> prefix (oldKey @ ''/'') (category p)
                     then p\<lparr>category := newKey @ drop (length oldKey) (category p)\<rparr> else p)
               (prompts s)
       \<and> (\<forall>p \<in> set (prompts (updateDescendantKeys oldKey newKey newDisplay s)).
             category p \<noteq> oldKey \<and> \<not> prefix (oldKey @ ''/'') (category p))"
proof -
  have "category p' \<noteq> oldKey \<and> \<not> prefix (oldKey @ ''/'') (category p')"
    if "p' \<in> set (prompts (updateDescendantKeys oldKey newKey newDisplay s))" for p'
  proof -
    from that obtain p where p: "p \<in> set (prompts s)"
      "p' = (if category p = oldKey \<or> prefix (oldKey @ ''/'') (category p)
             then p\<lparr>category := newKey @ drop (length oldKey) (category p)\<rparr> else p)"
      unfolding prompts_updateDescendantKeys by auto
    show ?thesis
    proof (cases "category p = oldKey \<or> prefix (oldKey @ ''/'') (category p)")
      case True
      then show ?thesis using p(2) renamed_category_free[OF assms(3-5) True] by simp
    next
      case False
      then show ?thesis using p(2) by simp
    qed
  qed
  then show ?thesis using prompts_updateDescendantKeys by blast
qed

theorem rename_cascade_witness:
  "selector_safe ''art'' \<and> list_all selector_safe (li_keys (categoryList scenario_state))
   \<and> ''painting'' \<noteq> ''art'' \<and> \<not> prefix (''art'' @ ''/'') ''painting''
   \<and> \<not> prefix (''painting'' @ ''/'') ''art''
   \<and> map category (prompts (updateDescendantKeys ''art'' ''painting'' ''Painting'' scenario_state))
      = [''painting'', ''painting'', ''painting/portrait'', ''code'', ''other'']"
proof -
  have h1: "selector_safe ''art''" by (simp add: selector_safe_def)
  have h2: "list_all selector_safe (li_keys (categoryList scenario_state))"
    by (simp add: scenario_categoryList scenario_items_def li_keys_def
        querySelectorAll_li_def selector_safe_def)
  have h3: "''painting'' \<noteq> ''art''" by simp
  have h4: "\<not> prefix (''art'' @ ''/'') ''painting''" by simp
  have h5: "\<not> prefix (''painting'' @ ''/'') ''art''" by simp
  have "map category (prompts (updateDescendantKeys ''art'' ''painting'' ''Painting'' scenario_state))
      = [''painting'', ''painting'', ''painting/portrait'', ''code'', ''other'']"
    using rename_cascade[OF h1 h2 h3 h4 h5, of "''Painting''"]
    by (simp add: scenario_state_def addSampleData_def initial_state_def Let_def)
  with h1 h2 h3 h4 h5 show ?thesis by simp
qed

text \<open>
  Claim C2 as stated fails. Renaming art to the display name "Art/New" passes the
  handler's checks; the records of art then carry the category art/new, which starts with
  the old key and a slash. Renaming a top-level item x/y to "X" turns the category x/y/y
  into x/y, the old key.
\<close>

theorem rename_cascade_counterexample:
  "map category (prompts (editBtn_click [1] (Some ''Art/New'') scenario_state))
      = [''art/new'', ''art/new'', ''art/new/portrait'', ''code'', ''other'']
   \<and> list_ex (\<lambda>p. category p = ''art'' \<or> prefix ''art/'' (category p))
        (prompts (editBtn_click [1] (Some ''Art/New'') scenario_state))
   \<and> map category (prompts (editBtn_click [0] (Some ''X'')
        (scenario_state\<lparr>categoryList := [Li ''x/y'' ''X/Y'' []],
            prompts := [(prompts scenario_state ! 0)\<lparr>category := ''x/y/y''\<rparr>]\<rparr>)))
      = [''x/y'']"
  by (simp add: editBtn_click_def prompts_updateDescendantKeys scenario_categoryList
      scenario_items_def querySelectorAll_li_def answers_normalised scenario_state_def addSampleData_def initial_state_def Let_def)

text \<open>
  Claim C6 on the code. The edit handler has no check against \<open>protect\<close>: renaming the
  item other to "Misc", or the item favorites to "Favs", goes through; the item gets the
  new key and the records of other are moved to misc.
\<close>

theorem rename_reserved:
  "li_keys (categoryList (editBtn_click [3] (Some ''Misc'') scenario_state))
      = [''favorites'', ''art'', ''art/portrait'', ''code'', ''misc'']
   \<and> map category (prompts (editBtn_click [3] (Some ''Misc'') scenario_state))
      = [''art'', ''art'', ''art/portrait'', ''code'', ''misc'']
   \<and> li_keys (categoryList (editBtn_click [0] (Some ''Favs'') scenario_state))
      = [''favs'', ''art'', ''art/portrait'', ''code'', ''other'']"
  by (simp add: editBtn_click_def prompts_updateDescendantKeys scenario_categoryList
      scenario_items_def querySelectorAll_li_def answers_normalised scenario_state_def addSampleData_def initial_state_def Let_def
      li_keys_def updateDescendantKeys_def startsWith_def)




section \<open>Properties of the search\<close>

text \<open>
  Claim C7 on the code. The cards that \<open>createPromptCard\<close> draws have no element of class
  \<open>prompt-text\<close> (unless the category of the prompt happens to hold that class token).
  For a query that is not in the cache the handler therefore raises a \<open>TypeError\<close> at the
  first card of any non-empty grid: it returns no ids, caches nothing and leaves every
  card as it was, whatever the term is.
\<close>

theorem search_raises_TypeError:
  assumes "promptGrid s = map createPromptCard ps" and "ps \<noteq> []"
    and "''prompt-text'' \<notin> set (class_tokens (category (hd ps)))"
    and "cache_lookup (searchCache s) (trim (toLowerCase v)) = None"
  shows "searchInput_handler v s = (s, Some TypeError)"
proof -
  from assms(2) obtain p rest where ps: "ps = p # rest" by (cases ps) auto
  have "search_cards (trim (toLowerCase v)) (promptGrid s) [] = Inl TypeError"
    unfolding assms(1) ps using assms(3) ps
    by (simp add: card_matches_def card_prompt_text_def createPromptCard_def Let_def)
  then show ?thesis using assms(4) by (simp add: searchInput_handler_def Let_def)
qed

lemma scenario_grid: "promptGrid scenario_state = map createPromptCard (prompts scenario_state)"
  by (simp add: scenario_state_def loadPrompts_def Let_def)

lemma scenario_first:
  "prompts scenario_state \<noteq> []"
  "category (hd (prompts scenario_state)) = ''art''"
  "title (hd (prompts scenario_state)) = ''Fantasy Landscape Painting''"
  "notes' (hd (prompts scenario_state)) = ''Works best with DALL-E 3 or Midjourney v5.2''"
  by (simp_all add: scenario_state_def addSampleData_def loadPrompts_def
      updateEmptyState_def initial_state_def Let_def)

lemma scenario_searchCache: "searchCache scenario_state = []"
  by (simp add: scenario_state_def addSampleData_def loadPrompts_def
      updateEmptyState_def initial_state_def Let_def)

theorem search_raises_TypeError_witness:
  "promptGrid scenario_state = map createPromptCard (prompts scenario_state)
   \<and> prompts scenario_state \<noteq> []
   \<and> ''prompt-text'' \<notin> set (class_tokens (category (hd (prompts scenario_state))))
   \<and> cache_lookup (searchCache scenario_state) (trim (toLowerCase ''Fantasy'')) = None
   \<and> cache_lookup (searchCache scenario_state) (trim (toLowerCase '''')) = None
   \<and> cache_lookup (searchCache scenario_state) (trim (toLowerCase ''Midjourney'')) = None
   \<and> includes' (toLowerCase (title (hd (prompts scenario_state))))
        (trim (toLowerCase ''Fantasy''))
   \<and> includes' (toLowerCase (notes' (hd (prompts scenario_state))))
        (trim (toLowerCase ''Midjourney''))
   \<and> searchInput_handler ''Fantasy'' scenario_state = (scenario_state, Some TypeError)
   \<and> searchInput_handler '''' scenario_state = (scenario_state, Some TypeError)
   \<and> searchInput_handler ''Midjourney'' scenario_state = (scenario_state, Some TypeError)"
proof -
  have t: "trim (toLowerCase ''Fantasy'') = ''fantasy''" "trim (toLowerCase '''') = []"
    "trim (toLowerCase ''Midjourney'') = ''midjourney''"
    by code_simp+
  have tok: "''prompt-text'' \<notin> set (class_tokens (category (hd (prompts scenario_state))))"
    unfolding scenario_first by code_simp
  have c: "cache_lookup (searchCache scenario_state) ''fantasy'' = None"
    "cache_lookup (searchCache scenario_state) [] = None"
    "cache_lookup (searchCache scenario_state) ''midjourney'' = None"
    unfolding scenario_searchCache by code_simp+
  have i1: "includes' (toLowerCase (title (hd (prompts scenario_state)))) ''fantasy''"
    unfolding scenario_first by code_simp
  have i2: "includes' (toLowerCase (notes' (hd (prompts scenario_state)))) ''midjourney''"
    unfolding scenario_first by code_simp
  have h1: "searchInput_handler ''Fantasy'' scenario_state = (scenario_state, Some TypeError)"
    using c(1) by (intro search_raises_TypeError[OF scenario_grid scenario_first(1) tok])
      (simp add: t)
  have h2: "searchInput_handler '''' scenario_state = (scenario_state, Some TypeError)"
    using c(2) by (intro search_raises_TypeError[OF scenario_grid scenario_first(1) tok])
      (simp add: t)
  have h3: "searchInput_handler ''Midjourney'' scenario_state = (scenario_state, Some TypeError)"
    using c(3) by (intro search_raises_TypeError[OF scenario_grid scenario_first(1) tok])
      (simp add: t)
  from scenario_grid scenario_first(1) tok c i1 i2 h1 h2 h3 show ?thesis
    unfolding t by (intro conjI)
qed


section \<open>The search cache and the history\<close>

lemma searchCache_undo: "searchCache (undo s) = searchCache s"
  by (simp add: undo_def)

lemma searchCache_redo: "searchCache (redo s) = searchCache s"
  by (simp add: redo_def)

lemma alpha_normalised: "trim (toLowerCase ''alpha'') = ''alpha''"
  by code_simp

lemma alpha_not_inherited: "''alpha'' \<notin> set object_prototype_names"
  by code_simp

text \<open>
  Claim C8 on the code. \<open>undo\<close> and \<open>redo\<close> replace the collection and leave the
  search cache as it is. In the view of the category art: a record titled "Alpha" is
  created and the creation is undone; a search for "alpha" over the empty grid caches the
  empty result (and then raises a \<open>TypeError\<close> on the element \<open>#emptyState\<close>, which the
  redrawing has removed from the page); \<open>redo\<close> brings the record back with the cache
  entry still in place, and the same search is answered from the cache and hides the card
  of the record whose title contains the term.
\<close>

theorem stale_cache_after_redo:
  "searchCache (undo s) = searchCache s \<and> searchCache (redo s) = searchCache s
   \<and> (\<exists>s3 s5.
        searchInput_handler ''alpha''
          (undo (savePrompt \<lparr>form_title = ''Alpha'', form_category = ''art'', form_tags = [],
                   form_text = ''X'', form_notes = [], form_rating = 0,
                   form_resultImages = [], form_inputImage = None\<rparr>
             ''n1'' ''t1'' ''t2''
             (addNewPrompt (activateCategoryItem [1]
                (initial_state scenario_items scenario_options place)))))
          = (s3, Some TypeError)
        \<and> prompts s3 = [] \<and> searchCache s3 = [(''alpha'', [])]
        \<and> map title (prompts (redo s3)) = [''Alpha'']
        \<and> map prompt_title_text (promptGrid (redo s3)) = [''Alpha'']
        \<and> searchCache (redo s3) = [(''alpha'', [])]
        \<and> searchInput_handler ''alpha'' (redo s3) = (s5, Some TypeError)
        \<and> map shown (promptGrid s5) = [False])"
proof -
  let ?new = "\<lparr>id' = ''n1'', title = ''Alpha'', category = ''art'', tags = [],
        text' = ''X'', notes' = [], rating = Some 0, resultImages = [],
        inputImage = None, createdAt = ''t1'', updatedAt = ''t2''\<rparr>"
  let ?base = "(initial_state scenario_items scenario_options Absent)
                 \<lparr>currentCategory := ''art''\<rparr>"
  let ?s0 = "activateCategoryItem [1] (initial_state scenario_items scenario_options place)"
  let ?s1 = "savePrompt \<lparr>form_title = ''Alpha'', form_category = ''art'', form_tags = [],
                   form_text = ''X'', form_notes = [], form_rating = 0,
                   form_resultImages = [], form_inputImage = None\<rparr>
             ''n1'' ''t1'' ''t2'' (addNewPrompt ?s0)"
  let ?s2 = "undo ?s1"
  let ?s3 = "?s2\<lparr>searchCache := [(''alpha'', [])]\<rparr>"
  have s0: "?s0 = (initial_state scenario_items scenario_options
                    (if place = OutsideGrid then InsideGrid else Absent))
               \<lparr>currentCategory := ''art''\<rparr>"
    by (cases place)
      (simp_all add: activateCategoryItem_def scenario_items_def initial_state_def
        loadPrompts_def updateEmptyState_def Let_def)
  have s1: "?s1 = ?base\<lparr>prompts := [?new], undoStack := [[]],
                promptGrid := [createPromptCard ?new]\<rparr>"
    unfolding s0
    by (simp add: savePrompt_def addNewPrompt_def saveState_def initial_state_def
        loadPrompts_def updateEmptyState_def Let_def)
  have s2: "?s2 = ?base\<lparr>redoStack := [[?new]]\<rparr>"
    unfolding s1
    by (simp add: undo_def initial_state_def loadPrompts_def updateEmptyState_def Let_def)
  have h3: "searchInput_handler ''alpha'' ?s2 = (?s3, Some TypeError)"
    unfolding s2
    by (simp add: searchInput_handler_def alpha_normalised initial_state_def
        applySearchResults_def show_search_emptyState_def cache_lookup_def
        alpha_not_inherited Let_def)
  have p3: "prompts ?s3 = []" "searchCache ?s3 = [(''alpha'', [])]"
    unfolding s2 by (simp_all add: initial_state_def)
  have r3: "redo ?s3 = ?base\<lparr>prompts := [?new], undoStack := [[]],
                searchCache := [(''alpha'', [])],
                promptGrid := [createPromptCard ?new]\<rparr>"
    unfolding s2
    by (simp add: redo_def initial_state_def loadPrompts_def updateEmptyState_def Let_def)
  have p4: "map title (prompts (redo ?s3)) = [''Alpha'']"
    "map prompt_title_text (promptGrid (redo ?s3)) = [''Alpha'']"
    "searchCache (redo ?s3) = [(''alpha'', [])]"
    unfolding r3 by (simp_all add: createPromptCard_def)
  let ?s5 = "(redo ?s3)\<lparr>promptGrid := [(createPromptCard ?new)\<lparr>shown := False\<rparr>]\<rparr>"
  have h5: "searchInput_handler ''alpha'' (redo ?s3) = (?s5, Some TypeError)"
    unfolding r3
    by (simp add: searchInput_handler_def alpha_normalised applySearchResults_def
        show_search_emptyState_def cache_lookup_def initial_state_def createPromptCard_def
        Let_def)
  have g5: "map shown (promptGrid ?s5) = [False]"
    by simp
  from h3 p3 p4 h5 g5 have "\<exists>s3 s5.
        searchInput_handler ''alpha'' ?s2 = (s3, Some TypeError)
        \<and> prompts s3 = [] \<and> searchCache s3 = [(''alpha'', [])]
        \<and> map title (prompts (redo s3)) = [''Alpha'']
        \<and> map prompt_title_text (promptGrid (redo s3)) = [''Alpha'']
        \<and> searchCache (redo s3) = [(''alpha'', [])]
        \<and> searchInput_handler ''alpha'' (redo s3) = (s5, Some TypeError)
        \<and> map shown (promptGrid s5) = [False]"
    by (intro exI[of _ ?s3] exI[of _ ?s5] conjI)
  with searchCache_undo[of s] searchCache_redo[of s] show ?thesis by (intro conjI)
qed


section \<open>Sharing a prompt through the URL\<close>

text \<open>
  Claim C9 on the code. A valid record titled "If x>y then swap" is shared: the token
  that \<open>sharePrompt\<close> appends to the URL holds a plus sign. Read back from the query
  string of that URL, the plus sign arrives as a space, \<open>atob\<close> raises
  \<open>InvalidCharacterError\<close>, and \<open>checkSharedPrompt\<close> reports an error instead of loading
  the shared values, whatever \<open>JSON.parse\<close> would do.
\<close>

theorem share_roundtrip_fails:
  "sharePrompt ''https://host/vault/'' ''n1''
      ((initial_state [] [] OutsideGrid)\<lparr>prompts :=
         [\<lparr>id' = ''n1'', title = ''If x>y then swap'', category = ''code'',
           tags = [''sort''], text' = ''Swap them.'', notes' = [], rating = Some 4,
           resultImages = [], inputImage = None, createdAt = ''t1'', updatedAt = ''t2''\<rparr>]\<rparr>)
     = Some (''https://host/vault/'' @ ''?shared='' @
         ''eyJ0aXRsZSI6IklmIHg+eSB0aGVuIHN3YXAiLCJjYXRlZ29yeSI6ImNvZGUiLCJ0YWdzIjpbInNvcnQiXSwidGV4dCI6IlN3YXAgdGhlbS4iLCJub3RlcyI6IiIsInJhdGluZyI6NH0='')
   \<and> URLSearchParams_get (''?shared='' @
         ''eyJ0aXRsZSI6IklmIHg+eSB0aGVuIHN3YXAiLCJjYXRlZ29yeSI6ImNvZGUiLCJ0YWdzIjpbInNvcnQiXSwidGV4dCI6IlN3YXAgdGhlbS4iLCJub3RlcyI6IiIsInJhdGluZyI6NH0='')
         ''shared''
     = Some ''eyJ0aXRsZSI6IklmIHg eSB0aGVuIHN3YXAiLCJjYXRlZ29yeSI6ImNvZGUiLCJ0YWdzIjpbInNvcnQiXSwidGV4dCI6IlN3YXAgdGhlbS4iLCJub3RlcyI6IiIsInJhdGluZyI6NH0=''
   \<and> checkSharedPrompt JSON_parse (''?shared='' @
         ''eyJ0aXRsZSI6IklmIHg+eSB0aGVuIHN3YXAiLCJjYXRlZ29yeSI6ImNvZGUiLCJ0YWdzIjpbInNvcnQiXSwidGV4dCI6IlN3YXAgdGhlbS4iLCJub3RlcyI6IiIsInJhdGluZyI6NH0='')
     = Some (Inl InvalidCharacterError)"
proof -
  let ?token = "''eyJ0aXRsZSI6IklmIHg+eSB0aGVuIHN3YXAiLCJjYXRlZ29yeSI6ImNvZGUiLCJ0YWdzIjpbInNvcnQiXSwidGV4dCI6IlN3YXAgdGhlbS4iLCJub3RlcyI6IiIsInJhdGluZyI6NH0=''"
  let ?got = "''eyJ0aXRsZSI6IklmIHg eSB0aGVuIHN3YXAiLCJjYXRlZ29yeSI6ImNvZGUiLCJ0YWdzIjpbInNvcnQiXSwidGV4dCI6IlN3YXAgdGhlbS4iLCJub3RlcyI6IiIsInJhdGluZyI6NH0=''"
  have enc: "btoa (JSON_stringify \<lparr>sd_title = ''If x>y then swap'', sd_category = ''code'',
      sd_tags = [''sort''], sd_text = ''Swap them.'', sd_notes = [], sd_rating = Some 4\<rparr>)
      = ?token"
    by code_simp
  have a: "sharePrompt ''https://host/vault/'' ''n1''
      ((initial_state [] [] OutsideGrid)\<lparr>prompts :=
         [\<lparr>id' = ''n1'', title = ''If x>y then swap'', category = ''code'',
           tags = [''sort''], text' = ''Swap them.'', notes' = [], rating = Some 4,
           resultImages = [], inputImage = None, createdAt = ''t1'', updatedAt = ''t2''\<rparr>]\<rparr>)
     = Some (''https://host/vault/'' @ ''?shared='' @ ?token)"
    unfolding sharePrompt_def Let_def by (simp add: enc)
  have b: "URLSearchParams_get (''?shared='' @ ?token) ''shared'' = Some ?got"
    by code_simp
  have c: "atob ?got = Inl InvalidCharacterError"
    by code_simp
  have d: "checkSharedPrompt JSON_parse (''?shared='' @ ?token) = Some (Inl InvalidCharacterError)"
    unfolding checkSharedPrompt_def b by (simp add: c)
  from a b d show ?thesis by (intro conjI)
qed


end
